theory Spec2Isabelle
  imports Main "HOL-Library.AList" "HOL-Library.Sublist"
begin

section \<open>Data model\<close>

text \<open>
  Instants of time (Python \<^verbatim>\<open>datetime\<close>) are integers counting microseconds, the
  resolution of \<^verbatim>\<open>datetime.now()\<close>; \<^verbatim>\<open>timedelta(days=d)\<close> is \<open>d\<close> days of
  microseconds. The bounds of \<^verbatim>\<open>datetime\<close> (years 1 to 9999) are not modelled:
  instants and windows are taken to stay inside them. Python's integers are unbounded, so
  quotas and counts are \<open>int\<close>.
\<close>

definition timedelta_days :: "int \<Rightarrow> int" where
  "timedelta_days d = d * 86400000000"

text \<open>The exceptions the modelled code raises, as values.\<close>

datatype py_error =
    ValueError string
  | KeyError string
  | OSError
  | DatabaseError

text \<open>
  An entry of the JSON dictionaries \<^verbatim>\<open>delivered_leads.json\<close> and
  \<^verbatim>\<open>exclusive_leads.json\<close>: either the \<^verbatim>\<open>isoformat()\<close> text of an instant,
  which \<^verbatim>\<open>datetime.fromisoformat\<close> reads back to that instant, or anything else,
  on which \<^verbatim>\<open>fromisoformat\<close> raises.
\<close>

datatype iso_string = Iso int | Not_iso

definition fromisoformat :: "iso_string \<Rightarrow> py_error + int" where
  "fromisoformat v = (case v of Iso t \<Rightarrow> Inr t
                      | Not_iso \<Rightarrow> Inl (ValueError ''Invalid isoformat string''))"

text \<open>\<^verbatim>\<open>config.py\<close>: the setting of \<^verbatim>\<open>Config\<close> that the deduplication reads.\<close>

record config =
  DEDUPLICATION_WINDOW_DAYS :: int

definition Config :: config where
  "Config = \<lparr>DEDUPLICATION_WINDOW_DAYS = 30\<rparr>"

text \<open>\<^verbatim>\<open>Config.PLAN_CONFIGURATIONS\<close>, the table of the plans.\<close>

record plan_configuration =
  max_leads :: int
  exclusive_option :: bool
  ai_personalization :: bool
  priority :: int

definition PLAN_CONFIGURATIONS :: "(string \<times> plan_configuration) list" where
  "PLAN_CONFIGURATIONS =
     [(''basic'', \<lparr>max_leads = 100, exclusive_option = False,
                   ai_personalization = False, priority = 3\<rparr>),
      (''pro'', \<lparr>max_leads = 250, exclusive_option = True,
                 ai_personalization = True, priority = 2\<rparr>),
      (''premium'', \<lparr>max_leads = 500, exclusive_option = True,
                     ai_personalization = True, priority = 1\<rparr>)]"

text \<open>
  An entry of a \<^verbatim>\<open>processed_leads_*.json\<close> file, as \<^verbatim>\<open>process_uploaded_leads\<close>
  writes it. \<open>processed_at\<close> is the ingestion instant.
\<close>

record lead_data =
  first_name :: string
  last_name :: string
  company :: string
  title :: string
  email :: string
  linkedin :: string
  processed_at :: int

text \<open>
  \<^verbatim>\<open>models.py\<close>, class \<^verbatim>\<open>Client\<close>, in the dictionary form the services receive
  (\<^verbatim>\<open>monthly_revenue\<close> and \<^verbatim>\<open>created_at\<close> play no part in delivery and are left out).
\<close>

record client =
  name :: string
  plan :: string
  exclusive :: bool
  lead_count :: int
  client_email :: string
  remaining_quota :: int
  active :: bool

text \<open>
  \<^verbatim>\<open>models.py\<close>, class \<^verbatim>\<open>Lead\<close>: the delivered lead. The generated texts
  (\<^verbatim>\<open>lead_id\<close>, \<^verbatim>\<open>linkedin\<close>, \<^verbatim>\<open>cold_email\<close>, \<^verbatim>\<open>icebreaker\<close>) and
  \<^verbatim>\<open>created_at\<close> are left out; the fields are prefixed, since \<open>lead_data\<close> has the
  same names.
\<close>

record Lead =
  Lead_client_name :: string
  Lead_first_name :: string
  Lead_last_name :: string
  Lead_title :: string
  Lead_company :: string
  Lead_email :: string
  Lead_verified :: bool
  Lead_exclusive :: bool

section \<open>\<^verbatim>\<open>deduplication.py\<close>: DeduplicationService\<close>

text \<open>
  The two dictionaries of the service, email to delivery date. A Python \<^verbatim>\<open>dict\<close>
  keeps insertion order and has one entry per key: an association list, read with
  \<open>map_of\<close> and written with \<open>AList.update\<close> (an existing key keeps its place, a new
  key goes to the end).
\<close>

record DeduplicationService =
  delivered_leads :: "(string \<times> iso_string) list"
  exclusive_leads :: "(string \<times> iso_string) list"

text \<open>
  \<^verbatim>\<open>is_lead_delivered\<close>: the clock reading \<open>now\<close> is a parameter. A stored date
  that does not parse makes \<^verbatim>\<open>fromisoformat\<close> raise.
\<close>

definition is_lead_delivered ::
  "config \<Rightarrow> int \<Rightarrow> DeduplicationService \<Rightarrow> string \<Rightarrow> py_error + bool" where
  "is_lead_delivered cfg now s e =
     (case map_of (delivered_leads s) e of
        None \<Rightarrow> Inr False
      | Some v \<Rightarrow>
          (case fromisoformat v of
             Inl err \<Rightarrow> Inl err
           | Inr delivery_date \<Rightarrow>
               (let cutoff_date = now - timedelta_days (DEDUPLICATION_WINDOW_DAYS cfg)
                in Inr (delivery_date > cutoff_date))))"

definition is_lead_exclusive_delivered :: "DeduplicationService \<Rightarrow> string \<Rightarrow> bool" where
  "is_lead_exclusive_delivered s e = (e \<in> set (map fst (exclusive_leads s)))"

text \<open>
  \<^verbatim>\<open>mark_leads_as_delivered\<close>: the loop over the emails, then the function with its
  clock reading. Writing the files is wrapped in handlers that log and go on, so the
  dictionaries in memory are updated whatever happens to the files; nothing in the body
  raises.
\<close>

fun mark_loop ::
  "iso_string \<Rightarrow> bool \<Rightarrow> string list \<Rightarrow> DeduplicationService \<Rightarrow> DeduplicationService" where
  "mark_loop current_time excl [] s = s"
| "mark_loop current_time excl (e # es) s =
     (let s1 = s\<lparr>delivered_leads := AList.update e current_time (delivered_leads s)\<rparr>;
          s2 = (if excl
                then s1\<lparr>exclusive_leads := AList.update e current_time (exclusive_leads s1)\<rparr>
                else s1)
      in mark_loop current_time excl es s2)"

definition mark_leads_as_delivered ::
  "int \<Rightarrow> string list \<Rightarrow> bool \<Rightarrow> DeduplicationService \<Rightarrow> DeduplicationService" where
  "mark_leads_as_delivered now emails excl s = mark_loop (Iso now) excl emails s"

text \<open>
  \<^verbatim>\<open>remove_duplicates\<close> works on a pandas DataFrame: its column names and its
  rows, a row giving the cell of each column (no cell where the CSV had none).
\<close>

record dataframe =
  columns :: "string list"
  rows :: "(string \<times> string) list list"

definition cell :: "string \<Rightarrow> (string \<times> string) list \<Rightarrow> string option" where
  "cell col r = map_of r col"

text \<open>\<^verbatim>\<open>drop_duplicates(subset=['email'], keep='first')\<close>: the first row of each
  email stays, in order; a column that does not exist is a \<^verbatim>\<open>KeyError\<close>.\<close>

fun keep_first ::
  "string option list \<Rightarrow> (string \<times> string) list list \<Rightarrow> (string \<times> string) list list" where
  "keep_first seen [] = []"
| "keep_first seen (r # rs) =
     (if cell ''email'' r \<in> set seen then keep_first seen rs
      else r # keep_first (cell ''email'' r # seen) rs)"

definition drop_duplicates :: "dataframe \<Rightarrow> py_error + dataframe" where
  "drop_duplicates df =
     (if ''email'' \<in> set (columns df)
      then Inr (df\<lparr>rows := keep_first [] (rows df)\<rparr>)
      else Inl (KeyError ''email''))"

text \<open>The set comprehension over \<^verbatim>\<open>self.delivered_leads.items()\<close>: every stored
  date is parsed, so one that does not parse raises.\<close>

fun recent_delivered :: "int \<Rightarrow> (string \<times> iso_string) list \<Rightarrow> py_error + string list" where
  "recent_delivered cutoff_date [] = Inr []"
| "recent_delivered cutoff_date ((e, delivery_date) # items) =
     (case fromisoformat delivery_date of
        Inl err \<Rightarrow> Inl err
      | Inr d \<Rightarrow>
          (case recent_delivered cutoff_date items of
             Inl err \<Rightarrow> Inl err
           | Inr recent \<Rightarrow> Inr (if d > cutoff_date then e # recent else recent)))"

text \<open>The body of the \<^verbatim>\<open>try\<close> block of \<^verbatim>\<open>remove_duplicates\<close>.\<close>

definition remove_duplicates_try ::
  "config \<Rightarrow> int \<Rightarrow> DeduplicationService \<Rightarrow> dataframe \<Rightarrow> py_error + dataframe" where
  "remove_duplicates_try cfg now s df =
     (case drop_duplicates df of
        Inl err \<Rightarrow> Inl err
      | Inr df_deduplicated \<Rightarrow>
          (let cutoff_date = now - timedelta_days (DEDUPLICATION_WINDOW_DAYS cfg)
           in case recent_delivered cutoff_date (delivered_leads s) of
                Inl err \<Rightarrow> Inl err
              | Inr recent \<Rightarrow>
                  Inr (df_deduplicated\<lparr>rows :=
                         filter (\<lambda>r. cell ''email'' r \<notin> Some ` set recent)
                           (rows df_deduplicated)\<rparr>)))"

text \<open>\<^verbatim>\<open>remove_duplicates\<close>: the handler \<^verbatim>\<open>except Exception\<close> logs and returns
  \<^verbatim>\<open>df\<close>.\<close>

definition remove_duplicates ::
  "config \<Rightarrow> int \<Rightarrow> DeduplicationService \<Rightarrow> dataframe \<Rightarrow> dataframe" where
  "remove_duplicates cfg now s df =
     (case remove_duplicates_try cfg now s df of
        Inl err \<Rightarrow> df
      | Inr df_final \<Rightarrow> df_final)"

section \<open>\<^verbatim>\<open>database.py\<close>: the deduplication table\<close>

text \<open>
  A row of the table \<^verbatim>\<open>delivered_leads\<close>, which is \<^verbatim>\<open>UNIQUE(email, fingerprint)\<close>;
  \<^verbatim>\<open>delivered_at\<close> defaults to the time of the insertion.
\<close>

record delivered_row =
  row_email :: string
  row_fingerprint :: string
  row_exclusive :: bool
  row_delivered_at :: int

text \<open>
  \<^verbatim>\<open>DatabaseManager.mark_lead_delivered\<close>:
  \<^verbatim>\<open>INSERT ... ON CONFLICT (email, fingerprint) DO NOTHING\<close>. \<open>conn_ok\<close> says
  whether the connection can be opened; \<^verbatim>\<open>get_connection\<close> re-raises when not.
\<close>

definition mark_lead_delivered ::
  "bool \<Rightarrow> int \<Rightarrow> string \<Rightarrow> string \<Rightarrow> bool \<Rightarrow> delivered_row list
     \<Rightarrow> py_error + delivered_row list" where
  "mark_lead_delivered conn_ok now e fingerprint excl tbl =
     (if \<not> conn_ok then Inl DatabaseError
      else if (e, fingerprint) \<in> set (map (\<lambda>r. (row_email r, row_fingerprint r)) tbl)
      then Inr tbl
      else Inr (tbl @ [\<lparr>row_email = e, row_fingerprint = fingerprint,
                         row_exclusive = excl, row_delivered_at = now\<rparr>]))"

section \<open>\<^verbatim>\<open>services/lead_processor.py\<close>: LeadProcessor\<close>

text \<open>Python's slice \<^verbatim>\<open>xs[:n]\<close>: a negative \<open>n\<close> counts from the end.\<close>

definition slice_to :: "int \<Rightarrow> 'a list \<Rightarrow> 'a list" where
  "slice_to n xs =
     (if 0 \<le> n then take (nat n) xs else take (nat (int (length xs) + n)) xs)"

text \<open>
  What a run reads from outside: the clock when the available leads are computed
  (\<open>now\<close>) and when the leads are marked (\<open>now_marked\<close>); the leads of all
  \<^verbatim>\<open>data/processed_leads_*.json\<close> files in the order \<^verbatim>\<open>os.listdir\<close> and the files
  give them, or the exception that reading them raises (\<open>pool\<close>); whether the body of the
  loop that builds the \<open>i\<close>-th \<^verbatim>\<open>Lead\<close> goes through (\<open>lead_ok\<close>: AI generation and
  string handling can raise there); whether the delivery folder and the CSV file can be
  written (\<open>storage_ok\<close>).
\<close>

record env =
  now :: int
  now_marked :: int
  pool :: "py_error + lead_data list"
  lead_ok :: "nat \<Rightarrow> lead_data \<Rightarrow> bool"
  storage_ok :: bool

text \<open>The filtering loop of \<^verbatim>\<open>_get_available_leads\<close>.\<close>

fun filter_available ::
  "config \<Rightarrow> int \<Rightarrow> DeduplicationService \<Rightarrow> client \<Rightarrow> lead_data list
     \<Rightarrow> py_error + lead_data list" where
  "filter_available cfg t s c [] = Inr []"
| "filter_available cfg t s c (lead # all_leads) =
     (case is_lead_delivered cfg t s (email lead) of
        Inl err \<Rightarrow> Inl err
      | Inr delivered \<Rightarrow>
          (case filter_available cfg t s c all_leads of
             Inl err \<Rightarrow> Inl err
           | Inr available_leads \<Rightarrow>
               Inr (if \<not> delivered
                    then (if exclusive c
                          then (if \<not> is_lead_exclusive_delivered s (email lead)
                                then lead # available_leads
                                else available_leads)
                          else lead # available_leads)
                    else available_leads)))"

text \<open>
  \<^verbatim>\<open>_get_available_leads\<close>: any exception is logged and the empty list returned. The
  plan priority is computed and not used.
\<close>

definition get_available_leads ::
  "config \<Rightarrow> env \<Rightarrow> DeduplicationService \<Rightarrow> client \<Rightarrow> lead_data list" where
  "get_available_leads cfg ev s c =
     (case pool ev of
        Inl err \<Rightarrow> []
      | Inr all_leads \<Rightarrow>
          (case filter_available cfg (now ev) s c all_leads of
             Inl err \<Rightarrow> []
           | Inr available_leads \<Rightarrow> available_leads))"

definition make_Lead :: "client \<Rightarrow> lead_data \<Rightarrow> Lead" where
  "make_Lead c ld =
     \<lparr>Lead_client_name = name c, Lead_first_name = first_name ld,
      Lead_last_name = last_name ld, Lead_title = title ld, Lead_company = company ld,
      Lead_email = email ld, Lead_verified = True, Lead_exclusive = exclusive c\<rparr>"

text \<open>The loop over \<^verbatim>\<open>enumerate(leads_to_deliver)\<close>: a lead whose processing raises
  is logged and skipped.\<close>

fun personalize :: "(nat \<Rightarrow> lead_data \<Rightarrow> bool) \<Rightarrow> client \<Rightarrow> nat \<Rightarrow> lead_data list \<Rightarrow> Lead list" where
  "personalize ok c i [] = []"
| "personalize ok c i (ld # lds) =
     (if ok i ld then make_Lead c ld # personalize ok c (Suc i) lds
      else personalize ok c (Suc i) lds)"

text \<open>
  The dictionary \<^verbatim>\<open>process_client_delivery\<close> returns, with the rows of the CSV file it
  wrote to the delivery folder: the delivered leads.
\<close>

record delivery_result =
  leads_delivered :: int
  csv_rows :: "Lead list"

text \<open>
  \<^verbatim>\<open>process_client_delivery\<close>, with the state of the deduplication service after the
  call. The upload, the notification and the CRM log are each in a handler that logs and
  goes on; they change nothing here. Every exception is re-raised to the caller.
\<close>

definition process_client_delivery ::
  "config \<Rightarrow> env \<Rightarrow> client \<Rightarrow> DeduplicationService
     \<Rightarrow> (py_error + delivery_result) \<times> DeduplicationService" where
  "process_client_delivery cfg ev c s =
     (let leads_to_deliver = get_available_leads cfg ev s c
      in if leads_to_deliver = []
         then (Inl (ValueError ''No leads available for delivery''), s)
         else
           (let max_leads = min (remaining_quota c) (lead_count c);
                leads_to_deliver = slice_to max_leads leads_to_deliver;
                personalized_leads = personalize (lead_ok ev) c 0 leads_to_deliver
            in if personalized_leads = []
               then (Inl (ValueError ''No leads could be processed successfully''), s)
               else if \<not> storage_ok ev
               then (Inl OSError, s)
               else
                 (Inr \<lparr>leads_delivered = int (length personalized_leads),
                       csv_rows = personalized_leads\<rparr>,
                  mark_leads_as_delivered (now_marked ev)
                    (map Lead_email personalized_leads) False s)))"

text \<open>The emails of the delivered leads of a run: those of the CSV rows when the run
  returns, none when it raises.\<close>

definition delivered_emails :: "py_error + delivery_result \<Rightarrow> string list" where
  "delivered_emails res = (case res of Inl err \<Rightarrow> [] | Inr result \<Rightarrow> map Lead_email (csv_rows result))"

section \<open>\<^verbatim>\<open>app.py\<close>: the route \<^verbatim>\<open>process_delivery\<close>\<close>

text \<open>
  The table \<^verbatim>\<open>clients\<close> by id, and the deduplication service of the application's
  \<^verbatim>\<open>LeadProcessor\<close>.
\<close>

record system =
  clients :: "(int \<times> client) list"
  dedup :: DeduplicationService

text \<open>Whether \<^verbatim>\<open>db.get_client_by_id\<close> and \<^verbatim>\<open>db.update_client_quota\<close> reach the
  database; each raises when it does not.\<close>

record db_env =
  get_client_ok :: bool
  update_quota_ok :: bool

text \<open>The HTTP answers of the route: 200 with the result, 404, 500 with the error.\<close>

datatype response =
    Success delivery_result
  | Client_not_found
  | Server_error py_error

definition process_delivery ::
  "config \<Rightarrow> env \<Rightarrow> db_env \<Rightarrow> int \<Rightarrow> system \<Rightarrow> response \<times> system" where
  "process_delivery cfg ev dbe client_id sys =
     (if \<not> get_client_ok dbe then (Server_error DatabaseError, sys)
      else
        (case map_of (clients sys) client_id of
           None \<Rightarrow> (Client_not_found, sys)
         | Some c \<Rightarrow>
             (case process_client_delivery cfg ev c (dedup sys) of
                (Inl err, s') \<Rightarrow> (Server_error err, sys\<lparr>dedup := s'\<rparr>)
              | (Inr result, s') \<Rightarrow>
                  (let new_quota = max 0 (remaining_quota c - leads_delivered result)
                   in if \<not> update_quota_ok dbe
                      then (Server_error DatabaseError, sys\<lparr>dedup := s'\<rparr>)
                      else (Success result,
                            sys\<lparr>clients := AList.update client_id
                                             (c\<lparr>remaining_quota := new_quota\<rparr>) (clients sys),
                                dedup := s'\<rparr>)))))"

text \<open>A sequence of requests to the route for one client, each with what it reads
  from outside; the answers are collected in order.\<close>

fun deliveries ::
  "config \<Rightarrow> int \<Rightarrow> (env \<times> db_env) list \<Rightarrow> system \<Rightarrow> response list \<times> system" where
  "deliveries cfg client_id [] sys = ([], sys)"
| "deliveries cfg client_id ((ev, dbe) # reqs) sys =
     (case process_delivery cfg ev dbe client_id sys of
        (r, sys') \<Rightarrow>
          (case deliveries cfg client_id reqs sys' of
             (rs, sys'') \<Rightarrow> (r # rs, sys'')))"

text \<open>The sizes of the successful deliveries among the answers.\<close>

fun delivered_sizes :: "response list \<Rightarrow> int list" where
  "delivered_sizes [] = []"
| "delivered_sizes (Success result # rs) = leads_delivered result # delivered_sizes rs"
| "delivered_sizes (r # rs) = delivered_sizes rs"

section \<open>Example inputs\<close>

text \<open>Concrete leads, clients, environments and states, on which the properties below
  are evaluated.\<close>

definition lead_a :: lead_data where
  "lead_a = \<lparr>first_name = ''Al'', last_name = ''Ames'', company = ''X'', title = ''CEO'',
             email = ''a@x.com'', linkedin = [], processed_at = 0\<rparr>"

definition lead_b :: lead_data where
  "lead_b = \<lparr>first_name = ''Bo'', last_name = ''Berg'', company = ''X'', title = ''CTO'',
             email = ''b@x.com'', linkedin = [], processed_at = 0\<rparr>"

definition lead_c :: lead_data where
  "lead_c = \<lparr>first_name = ''Cy'', last_name = ''Cole'', company = ''X'', title = ''CFO'',
             email = ''c@x.com'', linkedin = [], processed_at = 2\<rparr>"

definition client_E :: client where
  "client_E = \<lparr>name = ''E'', plan = ''premium'', exclusive = True, lead_count = 10,
               client_email = ''e@e.com'', remaining_quota = 10, active = True\<rparr>"

definition client_F :: client where
  "client_F = \<lparr>name = ''F'', plan = ''basic'', exclusive = False, lead_count = 10,
               client_email = ''f@f.com'', remaining_quota = 10, active = True\<rparr>"

definition client_H :: client where
  "client_H = \<lparr>name = ''H'', plan = ''basic'', exclusive = False, lead_count = 10,
               client_email = ''h@h.com'', remaining_quota = 10, active = True\<rparr>"

definition env_at :: "int \<Rightarrow> lead_data list \<Rightarrow> env" where
  "env_at t ls = \<lparr>now = t, now_marked = t, pool = Inr ls, lead_ok = (\<lambda>i ld. True),
                  storage_ok = True\<rparr>"

definition no_deliveries :: DeduplicationService where
  "no_deliveries = \<lparr>delivered_leads = [], exclusive_leads = []\<rparr>"

definition exclusive_to_E :: DeduplicationService where
  "exclusive_to_E = \<lparr>delivered_leads = [(''a@x.com'', Iso 0)],
                      exclusive_leads = [(''a@x.com'', Iso 0)]\<rparr>"

definition corrupt_index :: DeduplicationService where
  "corrupt_index = \<lparr>delivered_leads = [(''a@x.com'', Iso 0), (''z@x.com'', Not_iso)],
                    exclusive_leads = []\<rparr>"

definition upload :: dataframe where
  "upload = \<lparr>columns = [''first_name'', ''email''],
             rows = [ [(''first_name'', ''Al''), (''email'', ''a@x.com'')],
                     [(''first_name'', ''Al''), (''email'', ''a@x.com'')],
                     [(''first_name'', ''Cy''), (''email'', ''c@x.com'')]]\<rparr>"

definition client_G :: client where
  "client_G = \<lparr>name = ''G'', plan = ''basic'', exclusive = False, lead_count = 2,
               client_email = ''g@g.com'', remaining_quota = 5, active = True\<rparr>"

definition client_N :: client where
  "client_N = \<lparr>name = ''N'', plan = ''basic'', exclusive = False, lead_count = - 1,
               client_email = ''n@n.com'', remaining_quota = - 1, active = True\<rparr>"

definition client_Z :: client where
  "client_Z = \<lparr>name = ''Z'', plan = ''basic'', exclusive = False, lead_count = 100,
               client_email = ''z@z.com'', remaining_quota = 0, active = True\<rparr>"

definition db_up :: db_env where
  "db_up = \<lparr>get_client_ok = True, update_quota_ok = True\<rparr>"

definition db_update_fails :: db_env where
  "db_update_fails = \<lparr>get_client_ok = True, update_quota_ok = False\<rparr>"

definition delivered_b_day0 :: DeduplicationService where
  "delivered_b_day0 = \<lparr>delivered_leads = [(''b@x.com'', Iso 0)], exclusive_leads = []\<rparr>"

definition sys_H :: system where
  "sys_H = \<lparr>clients = [(1, client_H)], dedup = no_deliveries\<rparr>"

definition sys_B :: system where
  "sys_B = \<lparr>clients = [(1, client_H)], dedup = delivered_b_day0\<rparr>"

definition sys_G :: system where
  "sys_G = \<lparr>clients = [(1, client_G)], dedup = no_deliveries\<rparr>"

definition sys_G1 :: system where
  "sys_G1 = \<lparr>clients = [(1, client_G\<lparr>remaining_quota := 3\<rparr>)],
             dedup = \<lparr>delivered_leads = [(''a@x.com'', Iso 0), (''b@x.com'', Iso 0)],
                      exclusive_leads = []\<rparr>\<rparr>"

definition sys_N :: system where
  "sys_N = \<lparr>clients = [(1, client_N)], dedup = no_deliveries\<rparr>"


section \<open>Auxiliary facts\<close>

lemma mark_loop_exclusive_False:
  "exclusive_leads (mark_loop v False es s) = exclusive_leads s"
  by (induction es arbitrary: s) (auto simp: Let_def)

lemma mark_loop_delivered_map:
  "map_of (delivered_leads (mark_loop v x es s)) e =
     (if e \<in> set es then Some v else map_of (delivered_leads s) e)"
  by (induction es arbitrary: s) (auto simp: Let_def AList.update_conv')

lemma mark_loop_exclusive_map:
  "map_of (exclusive_leads (mark_loop v True es s)) e =
     (if e \<in> set es then Some v else map_of (exclusive_leads s) e)"
  by (induction es arbitrary: s) (auto simp: Let_def AList.update_conv')

lemma mark_loop_fixed:
  "\<forall>e \<in> set es. map_of (delivered_leads s) e = Some v
                    \<and> (x \<longrightarrow> map_of (exclusive_leads s) e = Some v)
     \<Longrightarrow> mark_loop v x es s = s"
  by (induction es arbitrary: s) (auto simp: Let_def AList.update_triv)

lemma mark_loop_idem: "mark_loop v x es (mark_loop v x es s) = mark_loop v x es s"
  by (rule mark_loop_fixed)
     (cases x; simp add: mark_loop_delivered_map mark_loop_exclusive_map
        mark_loop_exclusive_False)

lemma filter_available_filter:
  "filter_available cfg t s c ls = Inr av \<Longrightarrow>
     av = filter (\<lambda>ld. is_lead_delivered cfg t s (email ld) = Inr False
                      \<and> (exclusive c \<longrightarrow> \<not> is_lead_exclusive_delivered s (email ld))) ls"
  by (induction ls arbitrary: av) (auto split: sum.splits if_splits)

lemma get_available_leads_filter:
  "\<exists>ls. (pool ev = Inr ls \<or> ls = []) \<and> get_available_leads cfg ev s c =
     filter (\<lambda>ld. is_lead_delivered cfg (now ev) s (email ld) = Inr False
                 \<and> (exclusive c \<longrightarrow> \<not> is_lead_exclusive_delivered s (email ld))) ls"
  unfolding get_available_leads_def
  by (auto split: sum.splits dest: filter_available_filter intro: exI[of _ "[]"])

lemma get_available_leads_subset:
  "ld \<in> set (get_available_leads cfg ev s c) \<Longrightarrow>
     is_lead_delivered cfg (now ev) s (email ld) = Inr False
     \<and> (exclusive c \<longrightarrow> \<not> is_lead_exclusive_delivered s (email ld))"
  using get_available_leads_filter [of ev cfg s c] by auto

lemma personalize_emails: "Lead_email ` set (personalize ok c i ls) \<subseteq> email ` set ls"
  by (induction ls arbitrary: i) (auto simp: make_Lead_def)

lemma personalize_length: "length (personalize ok c i ls) \<le> length ls"
  by (induction ls arbitrary: i) (auto simp: le_SucI)

lemma personalize_all_ok: "\<forall>i ld. ok i ld \<Longrightarrow> personalize ok c i ls = map (make_Lead c) ls"
  by (induction ls arbitrary: i) auto

lemma set_slice_to: "set (slice_to n xs) \<subseteq> set xs"
  by (auto simp: slice_to_def dest: in_set_takeD)

lemma length_slice_to: "0 \<le> n \<Longrightarrow> int (length (slice_to n xs)) \<le> n"
  by (auto simp: slice_to_def)

lemma delivered_emails_subset:
  "set (delivered_emails (fst (process_client_delivery cfg ev c s)))
     \<subseteq> email ` set (get_available_leads cfg ev s c)"
proof -
  have "Lead_email ` set (personalize ok c 0 (slice_to n (get_available_leads cfg ev s c)))
          \<subseteq> email ` set (get_available_leads cfg ev s c)" for ok n
    using personalize_emails [of ok c 0 "slice_to n (get_available_leads cfg ev s c)"]
          set_slice_to [of n "get_available_leads cfg ev s c"]
    by blast
  then show ?thesis
    by (auto simp: process_client_delivery_def delivered_emails_def Let_def)
qed

lemma pcd_error_state:
  "fst (process_client_delivery cfg ev c s) = Inl err
     \<Longrightarrow> snd (process_client_delivery cfg ev c s) = s"
  by (auto simp: process_client_delivery_def Let_def split: if_splits)

lemma pcd_exclusive_leads:
  "exclusive_leads (snd (process_client_delivery cfg ev c s)) = exclusive_leads s"
  by (auto simp: process_client_delivery_def Let_def mark_leads_as_delivered_def
      mark_loop_exclusive_False)

lemma available_F_day31:
  "get_available_leads Config (env_at (timedelta_days 31) [lead_a]) exclusive_to_E client_F
     = [lead_a]"
  by (simp add: get_available_leads_def env_at_def is_lead_delivered_def fromisoformat_def
      exclusive_to_E_def lead_a_def client_F_def Config_def timedelta_days_def)

lemma available_fresh:
  "get_available_leads cfg (env_at t ls) no_deliveries c = ls"
proof -
  have "filter_available cfg t no_deliveries c ls = Inr ls" for ls
    by (induction ls) (simp_all add: is_lead_delivered_def no_deliveries_def
        is_lead_exclusive_delivered_def)
  then show ?thesis
    by (simp add: get_available_leads_def env_at_def)
qed

lemma available_b_day1:
  "get_available_leads Config (env_at (timedelta_days 1) [lead_b]) delivered_b_day0 c = []"
  by (simp add: get_available_leads_def env_at_def is_lead_delivered_def fromisoformat_def
      delivered_b_day0_def lead_b_def Config_def timedelta_days_def)

lemma available_G1:
  "get_available_leads Config (env_at 1 [lead_a, lead_b, lead_c]) (dedup sys_G1) c = [lead_c]"
  by (simp add: get_available_leads_def env_at_def is_lead_delivered_def fromisoformat_def
      is_lead_exclusive_delivered_def sys_G1_def lead_a_def lead_b_def lead_c_def Config_def
      timedelta_days_def)

lemma pcd_H_b:
  "process_client_delivery Config (env_at 7 [lead_b]) client_H no_deliveries
     = (Inr \<lparr>leads_delivered = 1, csv_rows = [make_Lead client_H lead_b]\<rparr>,
        \<lparr>delivered_leads = [(''b@x.com'', Iso 7)], exclusive_leads = []\<rparr>)"
  unfolding process_client_delivery_def available_fresh
  by (simp add: slice_to_def client_H_def env_at_def make_Lead_def lead_b_def
      mark_leads_as_delivered_def no_deliveries_def)

lemma pcd_b_day1:
  "process_client_delivery Config (env_at (timedelta_days 1) [lead_b]) c delivered_b_day0
     = (Inl (ValueError ''No leads available for delivery''), delivered_b_day0)"
  unfolding process_client_delivery_def available_b_day1 by simp

lemma pcd_E:
  "process_client_delivery Config (env_at 7 [lead_a]) client_E no_deliveries
     = (Inr \<lparr>leads_delivered = 1, csv_rows = [make_Lead client_E lead_a]\<rparr>,
        \<lparr>delivered_leads = [(''a@x.com'', Iso 7)], exclusive_leads = []\<rparr>)"
  unfolding process_client_delivery_def available_fresh
  by (simp add: slice_to_def client_E_def env_at_def make_Lead_def lead_a_def
      mark_leads_as_delivered_def no_deliveries_def)

lemma pcd_G:
  "process_client_delivery Config (env_at 0 [lead_a, lead_b, lead_c]) client_G no_deliveries
     = (Inr \<lparr>leads_delivered = 2,
             csv_rows = [make_Lead client_G lead_a, make_Lead client_G lead_b]\<rparr>,
        \<lparr>delivered_leads = [(''a@x.com'', Iso 0), (''b@x.com'', Iso 0)],
         exclusive_leads = []\<rparr>)"
  unfolding process_client_delivery_def available_fresh
  by (simp add: slice_to_def client_G_def env_at_def make_Lead_def lead_a_def lead_b_def
      mark_leads_as_delivered_def no_deliveries_def)

lemma pcd_G1:
  "process_client_delivery Config (env_at 1 [lead_a, lead_b, lead_c])
      (client_G\<lparr>remaining_quota := 3\<rparr>) (dedup sys_G1)
     = (Inr \<lparr>leads_delivered = 1,
             csv_rows = [make_Lead (client_G\<lparr>remaining_quota := 3\<rparr>) lead_c]\<rparr>,
        \<lparr>delivered_leads = [(''a@x.com'', Iso 0), (''b@x.com'', Iso 0), (''c@x.com'', Iso 1)],
         exclusive_leads = []\<rparr>)"
  unfolding process_client_delivery_def available_G1
  by (simp add: slice_to_def client_G_def env_at_def make_Lead_def lead_c_def
      mark_leads_as_delivered_def sys_G1_def)

lemma pcd_N:
  "process_client_delivery Config (env_at 0 [lead_a, lead_b, lead_c]) client_N no_deliveries
     = (Inr \<lparr>leads_delivered = 2,
             csv_rows = [make_Lead client_N lead_a, make_Lead client_N lead_b]\<rparr>,
        \<lparr>delivered_leads = [(''a@x.com'', Iso 0), (''b@x.com'', Iso 0)],
         exclusive_leads = []\<rparr>)"
  unfolding process_client_delivery_def available_fresh
  by (simp add: slice_to_def client_N_def env_at_def make_Lead_def lead_a_def lead_b_def
      mark_leads_as_delivered_def no_deliveries_def)

lemma pcd_Z:
  "process_client_delivery Config (env_at 7 [lead_a]) client_Z no_deliveries
     = (Inl (ValueError ''No leads could be processed successfully''), no_deliveries)"
  unfolding process_client_delivery_def available_fresh
  by (simp add: slice_to_def client_Z_def)

lemma run_G:
  "process_delivery Config (env_at 0 [lead_a, lead_b, lead_c]) db_up 1 sys_G
     = (Success \<lparr>leads_delivered = 2,
                  csv_rows = [make_Lead client_G lead_a, make_Lead client_G lead_b]\<rparr>,
        \<lparr>clients = [(1, client_G\<lparr>remaining_quota := 3\<rparr>)],
         dedup = \<lparr>delivered_leads = [(''a@x.com'', Iso 0), (''b@x.com'', Iso 0)],
                  exclusive_leads = []\<rparr>\<rparr>)"
  by (simp add: process_delivery_def sys_G_def db_up_def pcd_G)
     (simp add: client_G_def)

lemma run_G1:
  "fst (process_delivery Config (env_at 1 [lead_a, lead_b, lead_c]) db_up 1 sys_G1)
     = Success \<lparr>leads_delivered = 1,
                 csv_rows = [make_Lead (client_G\<lparr>remaining_quota := 3\<rparr>) lead_c]\<rparr>"
proof -
  have "map_of (clients sys_G1) 1 = Some (client_G\<lparr>remaining_quota := 3\<rparr>)"
    by (simp add: sys_G1_def)
  then show ?thesis
    by (simp add: process_delivery_def db_up_def pcd_G1)
qed

lemma sizes_G:
  "delivered_sizes (fst (deliveries Config 1
      [(env_at 0 [lead_a, lead_b, lead_c], db_up), (env_at 1 [lead_a, lead_b, lead_c], db_up)]
      sys_G)) = [2, 1]"
proof -
  have "process_delivery Config (env_at 0 [lead_a, lead_b, lead_c]) db_up 1 sys_G
          = (Success \<lparr>leads_delivered = 2,
                  csv_rows = [make_Lead client_G lead_a, make_Lead client_G lead_b]\<rparr>, sys_G1)"
    by (simp add: run_G sys_G1_def)
  then show ?thesis
    using run_G1 by (simp add: split_beta)
qed

lemma pcd_size_bound:
  assumes "fst (process_client_delivery cfg ev c s) = Inr res"
    and "0 \<le> min (remaining_quota c) (lead_count c)"
  shows "leads_delivered res \<le> min (remaining_quota c) (lead_count c)"
proof -
  let ?cap = "min (remaining_quota c) (lead_count c)"
  let ?ls = "slice_to ?cap (get_available_leads cfg ev s c)"
  have "res = \<lparr>leads_delivered = int (length (personalize (lead_ok ev) c 0 ?ls)),
                csv_rows = personalize (lead_ok ev) c 0 ?ls\<rparr>"
    using assms(1) by (auto simp: process_client_delivery_def Let_def split: if_splits)
  then have "leads_delivered res \<le> int (length ?ls)"
    using personalize_length [of "lead_ok ev" c 0 ?ls] by simp
  also have "\<dots> \<le> ?cap"
    using assms(2) by (rule length_slice_to)
  finally show ?thesis .
qed

lemma process_delivery_quota:
  assumes "map_of (clients sys) client_id = Some c"
    and "0 \<le> remaining_quota c" and "0 \<le> lead_count c"
  shows "\<exists>c'. map_of (clients (snd (process_delivery cfg ev dbe client_id sys))) client_id = Some c'
           \<and> lead_count c' = lead_count c
           \<and> remaining_quota c' = remaining_quota c
               - sum_list (delivered_sizes [fst (process_delivery cfg ev dbe client_id sys)])
           \<and> 0 \<le> remaining_quota c'"
proof (cases "get_client_ok dbe")
  case False
  with assms show ?thesis by (simp add: process_delivery_def)
next
  case True
  obtain r s' where pcd: "process_client_delivery cfg ev c (dedup sys) = (r, s')"
    by (cases "process_client_delivery cfg ev c (dedup sys)")
  show ?thesis
  proof (cases r)
    case (Inl e)
    with True assms pcd show ?thesis by (simp add: process_delivery_def)
  next
    case (Inr res)
    have "leads_delivered res \<le> min (remaining_quota c) (lead_count c)"
      using pcd Inr assms(2,3) pcd_size_bound [of cfg ev c "dedup sys" res] by simp
    then have le: "leads_delivered res \<le> remaining_quota c" by simp
    show ?thesis
    proof (cases "update_quota_ok dbe")
      case False
      with True assms pcd Inr show ?thesis by (simp add: process_delivery_def Let_def)
    next
      case upd: True
      with True assms pcd Inr le show ?thesis
        by (simp add: process_delivery_def Let_def AList.update_conv' max_def)
    qed
  qed
qed

lemma deliveries_quota:
  "map_of (clients sys) client_id = Some c \<Longrightarrow> 0 \<le> remaining_quota c \<Longrightarrow> 0 \<le> lead_count c \<Longrightarrow>
   \<exists>c'. map_of (clients (snd (deliveries cfg client_id reqs sys))) client_id = Some c'
        \<and> lead_count c' = lead_count c
        \<and> remaining_quota c' = remaining_quota c
             - sum_list (delivered_sizes (fst (deliveries cfg client_id reqs sys)))
        \<and> 0 \<le> remaining_quota c'"
proof (induction reqs arbitrary: sys c)
  case Nil
  then show ?case by simp
next
  case (Cons req reqs)
  obtain ev dbe where req: "req = (ev, dbe)" by (cases req)
  obtain r sys1 where step: "process_delivery cfg ev dbe client_id sys = (r, sys1)"
    by (cases "process_delivery cfg ev dbe client_id sys")
  obtain c1 where c1: "map_of (clients sys1) client_id = Some c1"
      "lead_count c1 = lead_count c"
      "remaining_quota c1 = remaining_quota c - sum_list (delivered_sizes [r])"
      "0 \<le> remaining_quota c1"
    using process_delivery_quota [OF Cons.prems, of cfg ev dbe] step by auto
  obtain c' where c': "map_of (clients (snd (deliveries cfg client_id reqs sys1))) client_id = Some c'"
      "lead_count c' = lead_count c1"
      "remaining_quota c' = remaining_quota c1
         - sum_list (delivered_sizes (fst (deliveries cfg client_id reqs sys1)))"
      "0 \<le> remaining_quota c'"
    using Cons.IH [OF c1(1) c1(4)] c1(2) Cons.prems(3) by auto
  have unfold: "deliveries cfg client_id (req # reqs) sys
                  = (r # fst (deliveries cfg client_id reqs sys1),
                     snd (deliveries cfg client_id reqs sys1))"
    using req step by (simp add: split_beta)
  have sum: "sum_list (delivered_sizes (r # rs))
               = sum_list (delivered_sizes [r]) + sum_list (delivered_sizes rs)" for rs
    by (cases r) simp_all
  have "remaining_quota c' = remaining_quota c
          - sum_list (delivered_sizes (r # fst (deliveries cfg client_id reqs sys1)))"
    using c'(3) c1(3) sum [of "fst (deliveries cfg client_id reqs sys1)"] by linarith
  then show ?case
    unfolding unfold using c'(1,2,4) c1(2) by simp
qed

lemma filter_available_plan:
  "filter_available cfg t s (c\<lparr>plan := p\<rparr>) ls = filter_available cfg t s c ls"
  by (induction ls) (simp_all split: sum.splits)

lemma get_available_leads_plan:
  "get_available_leads cfg ev s (c\<lparr>plan := p\<rparr>) = get_available_leads cfg ev s c"
  by (simp add: get_available_leads_def filter_available_plan split: sum.splits)

lemma get_available_leads_pool:
  assumes "pool ev = Inr all_leads"
  shows "\<exists>P. get_available_leads cfg ev s c = filter P all_leads
             \<or> get_available_leads cfg ev s c = []"
  using assms
  by (auto simp: get_available_leads_def split: sum.splits dest: filter_available_filter)

lemma recent_delivered_raises:
  "(\<exists>err. recent_delivered cutoff items = Inl err) \<longleftrightarrow> Not_iso \<in> snd ` set items"
proof (induction items)
  case Nil
  then show ?case by simp
next
  case (Cons item items)
  obtain e v where item: "item = (e, v)" by (cases item)
  show ?case
  proof (cases v)
    case (Iso d)
    with item Cons show ?thesis
      by (auto simp: fromisoformat_def split: sum.splits)
  next
    case Not_iso
    with item show ?thesis
      by (simp add: fromisoformat_def)
  qed
qed

lemma remove_duplicates_try_raises:
  "(\<exists>err. remove_duplicates_try cfg t s df = Inl err) \<longleftrightarrow>
     ''email'' \<notin> set (columns df) \<or> Not_iso \<in> snd ` set (delivered_leads s)"
proof (cases "''email'' \<in> set (columns df)")
  case False
  then show ?thesis
    by (simp add: remove_duplicates_try_def drop_duplicates_def)
next
  case True
  have "(\<exists>err. remove_duplicates_try cfg t s df = Inl err) \<longleftrightarrow>
          (\<exists>err. recent_delivered (t - timedelta_days (DEDUPLICATION_WINDOW_DAYS cfg))
                   (delivered_leads s) = Inl err)"
    using True
    by (auto simp: remove_duplicates_try_def drop_duplicates_def Let_def split: sum.splits)
  then show ?thesis
    using True recent_delivered_raises by simp
qed

lemma process_delivery_cases:
  "process_delivery cfg ev dbe client_id sys =
     (if \<not> get_client_ok dbe then (Server_error DatabaseError, sys)
      else case map_of (clients sys) client_id of
        None \<Rightarrow> (Client_not_found, sys)
      | Some c \<Rightarrow>
          (case fst (process_client_delivery cfg ev c (dedup sys)) of
             Inl err \<Rightarrow> (Server_error err, sys)
           | Inr result \<Rightarrow>
               if \<not> update_quota_ok dbe
               then (Server_error DatabaseError,
                     sys\<lparr>dedup := snd (process_client_delivery cfg ev c (dedup sys))\<rparr>)
               else (Success result,
                     sys\<lparr>clients := AList.update client_id
                            (c\<lparr>remaining_quota :=
                                 max 0 (remaining_quota c - leads_delivered result)\<rparr>)
                            (clients sys),
                         dedup := snd (process_client_delivery cfg ev c (dedup sys))\<rparr>)))"
proof (cases "get_client_ok dbe")
  case False
  then show ?thesis by (simp add: process_delivery_def)
next
  case True
  show ?thesis
  proof (cases "map_of (clients sys) client_id")
    case None
    with True show ?thesis by (simp add: process_delivery_def)
  next
    case (Some c)
    obtain r s' where pcd: "process_client_delivery cfg ev c (dedup sys) = (r, s')"
      by (cases "process_client_delivery cfg ev c (dedup sys)")
    show ?thesis
    proof (cases r)
      case (Inl e)
      with pcd have "s' = dedup sys"
        using pcd_error_state [of cfg ev c "dedup sys" e] by simp
      with True Some pcd Inl show ?thesis by (simp add: process_delivery_def)
    next
      case (Inr res)
      with True Some pcd show ?thesis by (simp add: process_delivery_def Let_def)
    qed
  qed
qed

section \<open>Exclusivity\<close>

text \<open>
  C1 (as amended). For every email that has an entry in the exclusive index and every
  client whose exclusive flag is set, no lead with that email is among the leads
  \<^verbatim>\<open>_get_available_leads\<close> returns for the client, nor among the leads
  \<^verbatim>\<open>process_client_delivery\<close> delivers to it, at any clock reading: the check of the
  exclusive index has no time window. The index records no holder, so this holds for
  every exclusive client.
\<close>

theorem exclusive_entry_blocks_exclusive_clients:
  assumes "exclusive c" and "is_lead_exclusive_delivered s e"
  shows "e \<notin> email ` set (get_available_leads cfg ev s c)
       \<and> e \<notin> set (delivered_emails (fst (process_client_delivery cfg ev c s)))"
proof -
  have notin: "e \<notin> email ` set (get_available_leads cfg ev s c)"
    using assms get_available_leads_subset [of _ cfg ev s c] by auto
  then show ?thesis
    using delivered_emails_subset [of cfg ev c s] by auto
qed

text \<open>The theorem at the exclusive client E, 31 days after \<^verbatim>\<open>a@x.com\<close> was
  recorded in the exclusive index.\<close>

theorem exclusive_entry_blocks_exclusive_clients_witness:
  "''a@x.com'' \<notin> email ` set (get_available_leads Config (env_at (timedelta_days 31) [lead_a])
                                  exclusive_to_E client_E)
   \<and> ''a@x.com'' \<notin> set (delivered_emails (fst (process_client_delivery Config
                           (env_at (timedelta_days 31) [lead_a]) client_E exclusive_to_E)))"
proof -
  have h1: "exclusive client_E" by (simp add: client_E_def)
  have h2: "is_lead_exclusive_delivered exclusive_to_E ''a@x.com''"
    by (simp add: is_lead_exclusive_delivered_def exclusive_to_E_def)
  show ?thesis
    using exclusive_entry_blocks_exclusive_clients [OF h1 h2] by blast
qed

text \<open>
  C1 as stated fails for a client that is not exclusive: \<^verbatim>\<open>_get_available_leads\<close>
  consults the exclusive index for exclusive clients only. The lead \<^verbatim>\<open>a@x.com\<close> has an
  exclusive entry of day 0; on day 31, outside the window of 30 days, it is delivered to
  the non-exclusive client F.
\<close>

theorem exclusive_lead_resold_counterexample:
  "is_lead_exclusive_delivered exclusive_to_E ''a@x.com''
   \<and> \<not> exclusive client_F
   \<and> delivered_emails (fst (process_client_delivery Config
        (env_at (timedelta_days 31) [lead_a]) client_F exclusive_to_E)) = [''a@x.com'']"
proof -
  have "delivered_emails (fst (process_client_delivery Config
        (env_at (timedelta_days 31) [lead_a]) client_F exclusive_to_E)) = [''a@x.com'']"
    unfolding process_client_delivery_def available_F_day31
    by (simp add: slice_to_def client_F_def env_at_def delivered_emails_def make_Lead_def
        lead_a_def)
  then show ?thesis
    by (simp add: is_lead_exclusive_delivered_def exclusive_to_E_def client_F_def)
qed

text \<open>
  C4 says that a delivery to an exclusive client records every delivered email in the
  exclusive index. \<^verbatim>\<open>process_client_delivery\<close> calls \<^verbatim>\<open>mark_leads_as_delivered\<close>
  without its \<^verbatim>\<open>exclusive\<close> argument, which defaults to false: the exclusive client E
  is delivered \<^verbatim>\<open>a@x.com\<close>, and afterwards the exclusive index has no entry for it.
\<close>

theorem exclusive_delivery_not_recorded:
  "exclusive client_E
   \<and> delivered_emails (fst (process_client_delivery Config (env_at 7 [lead_a]) client_E
                              no_deliveries)) = [''a@x.com'']
   \<and> \<not> is_lead_exclusive_delivered
         (snd (process_client_delivery Config (env_at 7 [lead_a]) client_E no_deliveries))
         ''a@x.com''"
  unfolding pcd_E
  by (simp add: client_E_def delivered_emails_def make_Lead_def lead_a_def
      is_lead_exclusive_delivered_def)

section \<open>Failing deliveries\<close>

text \<open>
  C2 (as amended). There is no rollback. A run of \<^verbatim>\<open>process_client_delivery\<close> that
  raises leaves the deduplication dictionaries as they were, since marking the leads is
  its last step and raises nothing. A request to the route that does not succeed leaves
  the table of clients, and so every quota, unchanged; and it leaves the whole state
  unchanged unless the delivery returned and the quota update failed. In that case the
  request is answered with an error and the entries that the completed delivery wrote
  stay in the index.
\<close>

theorem failed_delivery_state:
  "(fst (process_client_delivery cfg ev c s) = Inl err
      \<longrightarrow> snd (process_client_delivery cfg ev c s) = s)
   \<and> ((\<forall>result. fst (process_delivery cfg ev dbe client_id sys) \<noteq> Success result)
      \<longrightarrow> clients (snd (process_delivery cfg ev dbe client_id sys)) = clients sys
        \<and> (update_quota_ok dbe \<longrightarrow> snd (process_delivery cfg ev dbe client_id sys) = sys)
        \<and> (\<not> (get_client_ok dbe \<and> \<not> update_quota_ok dbe
               \<and> (\<exists>c' result. map_of (clients sys) client_id = Some c'
                     \<and> fst (process_client_delivery cfg ev c' (dedup sys)) = Inr result))
             \<longrightarrow> snd (process_delivery cfg ev dbe client_id sys) = sys))
   \<and> (get_client_ok dbe \<and> \<not> update_quota_ok dbe
        \<and> map_of (clients sys) client_id = Some c
        \<and> fst (process_client_delivery cfg ev c (dedup sys)) = Inr delivered
      \<longrightarrow> process_delivery cfg ev dbe client_id sys
            = (Server_error DatabaseError,
               sys\<lparr>dedup := snd (process_client_delivery cfg ev c (dedup sys))\<rparr>)
          \<and> dedup (snd (process_delivery cfg ev dbe client_id sys))
            = mark_leads_as_delivered (now_marked ev) (map Lead_email (csv_rows delivered))
                False (dedup sys))"
proof -
  have a: "fst (process_client_delivery cfg ev c s) = Inl err
      \<longrightarrow> snd (process_client_delivery cfg ev c s) = s"
    by (simp add: pcd_error_state)
  have b: "clients (snd (process_delivery cfg ev dbe client_id sys)) = clients sys
        \<and> (update_quota_ok dbe \<longrightarrow> snd (process_delivery cfg ev dbe client_id sys) = sys)
        \<and> (\<not> (get_client_ok dbe \<and> \<not> update_quota_ok dbe
               \<and> (\<exists>c' result. map_of (clients sys) client_id = Some c'
                     \<and> fst (process_client_delivery cfg ev c' (dedup sys)) = Inr result))
             \<longrightarrow> snd (process_delivery cfg ev dbe client_id sys) = sys)"
    if "\<forall>result. fst (process_delivery cfg ev dbe client_id sys) \<noteq> Success result"
    using that unfolding process_delivery_cases [of cfg ev dbe client_id sys]
    by (auto split: option.splits sum.splits if_splits)
  have marked: "snd (process_client_delivery cfg ev c (dedup sys))
            = mark_leads_as_delivered (now_marked ev) (map Lead_email (csv_rows delivered))
                False (dedup sys)"
    if "fst (process_client_delivery cfg ev c (dedup sys)) = Inr delivered"
    using that by (auto simp: process_client_delivery_def Let_def split: if_splits)
  have c: "process_delivery cfg ev dbe client_id sys
            = (Server_error DatabaseError,
               sys\<lparr>dedup := snd (process_client_delivery cfg ev c (dedup sys))\<rparr>)
          \<and> dedup (snd (process_delivery cfg ev dbe client_id sys))
            = mark_leads_as_delivered (now_marked ev) (map Lead_email (csv_rows delivered))
                False (dedup sys)"
    if "get_client_ok dbe \<and> \<not> update_quota_ok dbe
        \<and> map_of (clients sys) client_id = Some c
        \<and> fst (process_client_delivery cfg ev c (dedup sys)) = Inr delivered"
    using that marked unfolding process_delivery_cases [of cfg ev dbe client_id sys]
    by simp
  from a b c show ?thesis by blast
qed

text \<open>The theorem on a request that finds the only lead of the pool delivered the day
  before, and on a request whose delivery of \<^verbatim>\<open>b@x.com\<close> returns and whose quota
  update fails.\<close>

theorem failed_delivery_state_witness:
  "snd (process_client_delivery Config (env_at (timedelta_days 1) [lead_b]) client_H
          delivered_b_day0) = delivered_b_day0
   \<and> snd (process_delivery Config (env_at (timedelta_days 1) [lead_b]) db_up 1 sys_B) = sys_B
   \<and> process_delivery Config (env_at 7 [lead_b]) db_update_fails 1 sys_H
       = (Server_error DatabaseError,
          sys_H\<lparr>dedup := \<lparr>delivered_leads = [(''b@x.com'', Iso 7)], exclusive_leads = []\<rparr>\<rparr>)"
proof -
  have run: "process_delivery Config (env_at (timedelta_days 1) [lead_b]) db_up 1 sys_B
               = (Server_error (ValueError ''No leads available for delivery''), sys_B)"
    by (simp add: process_delivery_def sys_B_def db_up_def pcd_b_day1)
  have h1: "fst (process_client_delivery Config (env_at (timedelta_days 1) [lead_b]) client_H
              delivered_b_day0) = Inl (ValueError ''No leads available for delivery'')"
    by (simp add: pcd_b_day1)
  have h2: "\<forall>result. fst (process_delivery Config (env_at (timedelta_days 1) [lead_b]) db_up 1
              sys_B) \<noteq> Success result"
    by (simp add: run)
  have h3: "update_quota_ok db_up" by (simp add: db_up_def)
  have first: "snd (process_client_delivery Config (env_at (timedelta_days 1) [lead_b]) client_H
          delivered_b_day0) = delivered_b_day0
     \<and> snd (process_delivery Config (env_at (timedelta_days 1) [lead_b]) db_up 1 sys_B) = sys_B"
    using failed_delivery_state [of Config "env_at (timedelta_days 1) [lead_b]" client_H
            delivered_b_day0 "ValueError ''No leads available for delivery''" db_up 1 sys_B]
          h1 h2 h3
    by blast
  have k1: "get_client_ok db_update_fails \<and> \<not> update_quota_ok db_update_fails"
    by (simp add: db_update_fails_def)
  have k2: "map_of (clients sys_H) 1 = Some client_H" by (simp add: sys_H_def)
  have k3: "dedup sys_H = no_deliveries" by (simp add: sys_H_def)
  have k4: "fst (process_client_delivery Config (env_at 7 [lead_b]) client_H (dedup sys_H))
              = Inr \<lparr>leads_delivered = 1, csv_rows = [make_Lead client_H lead_b]\<rparr>"
    unfolding k3 by (simp add: pcd_H_b)
  have k5: "snd (process_client_delivery Config (env_at 7 [lead_b]) client_H (dedup sys_H))
              = \<lparr>delivered_leads = [(''b@x.com'', Iso 7)], exclusive_leads = []\<rparr>"
    unfolding k3 by (simp add: pcd_H_b)
  have second: "process_delivery Config (env_at 7 [lead_b]) db_update_fails 1 sys_H
       = (Server_error DatabaseError,
          sys_H\<lparr>dedup := \<lparr>delivered_leads = [(''b@x.com'', Iso 7)], exclusive_leads = []\<rparr>\<rparr>)"
    using failed_delivery_state [of Config "env_at 7 [lead_b]" client_H "dedup sys_H"
            "ValueError []" db_update_fails 1 sys_H
            "\<lparr>leads_delivered = 1, csv_rows = [make_Lead client_H lead_b]\<rparr>"]
          k1 k2 k4 k5
    by simp
  from first second show ?thesis by blast
qed

text \<open>
  C2 as stated fails when the quota update fails: the leads were already marked as
  delivered, the request is answered with an error, the quota is not decremented, and the
  entry of \<^verbatim>\<open>b@x.com\<close> stays in the index.
\<close>

theorem quota_update_failure_counterexample:
  "fst (process_delivery Config (env_at 7 [lead_b]) db_update_fails 1 sys_H)
     = Server_error DatabaseError
   \<and> delivered_leads (dedup (snd (process_delivery Config (env_at 7 [lead_b]) db_update_fails 1 sys_H)))
     = [(''b@x.com'', Iso 7)]
   \<and> delivered_leads (dedup sys_H) = []"
proof -
  have run: "process_delivery Config (env_at 7 [lead_b]) db_update_fails 1 sys_H
     = (Server_error DatabaseError,
        sys_H\<lparr>dedup := \<lparr>delivered_leads = [(''b@x.com'', Iso 7)], exclusive_leads = []\<rparr>\<rparr>)"
    by (simp add: process_delivery_def sys_H_def db_update_fails_def pcd_H_b)
  show ?thesis
    unfolding run by (simp add: sys_H_def no_deliveries_def)
qed

section \<open>Quota\<close>

text \<open>
  C3 (as amended). For a client whose remaining quota and lead count are not negative,
  after any sequence of requests to the route the remaining quota is the initial one minus
  the sum of the sizes of the successful deliveries, and it is not negative. The update
  itself is \<^verbatim>\<open>max(0, remaining_quota - leads_delivered)\<close> for every client: a
  delivery larger than the quota is committed and the quota clamped, not rejected.
\<close>

theorem quota_after_deliveries:
  assumes "map_of (clients sys) client_id = Some c"
  shows "(0 \<le> remaining_quota c \<and> 0 \<le> lead_count c \<longrightarrow>
            map_option remaining_quota
                (map_of (clients (snd (deliveries cfg client_id reqs sys))) client_id)
              = Some (remaining_quota c
                      - sum_list (delivered_sizes (fst (deliveries cfg client_id reqs sys))))
            \<and> 0 \<le> remaining_quota c
                  - sum_list (delivered_sizes (fst (deliveries cfg client_id reqs sys))))
       \<and> (fst (process_delivery cfg ev dbe client_id sys) = Success result \<longrightarrow>
            map_option remaining_quota
                (map_of (clients (snd (process_delivery cfg ev dbe client_id sys))) client_id)
              = Some (max 0 (remaining_quota c - leads_delivered result)))"
proof -
  have seq: "map_option remaining_quota
                (map_of (clients (snd (deliveries cfg client_id reqs sys))) client_id)
              = Some (remaining_quota c
                      - sum_list (delivered_sizes (fst (deliveries cfg client_id reqs sys))))
            \<and> 0 \<le> remaining_quota c
                  - sum_list (delivered_sizes (fst (deliveries cfg client_id reqs sys)))"
    if "0 \<le> remaining_quota c" and "0 \<le> lead_count c"
    using deliveries_quota [OF assms that, of cfg reqs] by auto
  have clamp: "map_option remaining_quota
                (map_of (clients (snd (process_delivery cfg ev dbe client_id sys))) client_id)
              = Some (max 0 (remaining_quota c - leads_delivered result))"
    if "fst (process_delivery cfg ev dbe client_id sys) = Success result"
    using that assms
    by (auto simp: process_delivery_def Let_def AList.update_conv'
        split: if_splits prod.splits sum.splits)
  from seq clamp show ?thesis by blast
qed

text \<open>The theorem on client G (quota 5, lead count 2) and a pool of three leads: two
  requests deliver 2 and 1 leads and leave the quota at 2.\<close>

theorem quota_after_deliveries_witness:
  "map_option remaining_quota
      (map_of (clients (snd (deliveries Config 1
         [(env_at 0 [lead_a, lead_b, lead_c], db_up), (env_at 1 [lead_a, lead_b, lead_c], db_up)]
         sys_G))) 1) = Some (5 - (2 + 1))
   \<and> map_option remaining_quota
        (map_of (clients (snd (process_delivery Config (env_at 0 [lead_a, lead_b, lead_c])
                                 db_up 1 sys_G))) 1) = Some (max 0 (5 - 2))"
proof -
  have h1: "map_of (clients sys_G) 1 = Some client_G" by (simp add: sys_G_def)
  have h2: "0 \<le> remaining_quota client_G \<and> 0 \<le> lead_count client_G"
    by (simp add: client_G_def)
  have h3: "fst (process_delivery Config (env_at 0 [lead_a, lead_b, lead_c]) db_up 1 sys_G)
              = Success \<lparr>leads_delivered = 2,
                  csv_rows = [make_Lead client_G lead_a, make_Lead client_G lead_b]\<rparr>"
    by (simp add: run_G)
  have rq: "remaining_quota client_G = 5" by (simp add: client_G_def)
  show ?thesis
    using quota_after_deliveries [OF h1, of Config
            "[(env_at 0 [lead_a, lead_b, lead_c], db_up),
              (env_at 1 [lead_a, lead_b, lead_c], db_up)]"
            "env_at 0 [lead_a, lead_b, lead_c]" db_up
            "\<lparr>leads_delivered = 2,
              csv_rows = [make_Lead client_G lead_a, make_Lead client_G lead_b]\<rparr>"]
          h2 h3 sizes_G rq
    by simp
qed

text \<open>
  C3 as stated fails on a client whose lead count and quota are \<open>-1\<close>, which
  \<^verbatim>\<open>add_client\<close> accepts: the slice \<^verbatim>\<open>[:-1]\<close> keeps two of three leads, the
  delivery succeeds, and the quota becomes 0, neither \<open>-1 - 2\<close> nor a rejection.
\<close>

theorem quota_clamped_counterexample:
  "map_option remaining_quota (map_of (clients sys_N) 1) = Some (- 1)
   \<and> fst (process_delivery Config (env_at 0 [lead_a, lead_b, lead_c]) db_up 1 sys_N)
       = Success \<lparr>leads_delivered = 2,
                  csv_rows = [make_Lead client_N lead_a, make_Lead client_N lead_b]\<rparr>
   \<and> map_option remaining_quota
        (map_of (clients (snd (process_delivery Config (env_at 0 [lead_a, lead_b, lead_c])
                                 db_up 1 sys_N))) 1) = Some 0"
proof -
  have run: "process_delivery Config (env_at 0 [lead_a, lead_b, lead_c]) db_up 1 sys_N
     = (Success \<lparr>leads_delivered = 2,
                  csv_rows = [make_Lead client_N lead_a, make_Lead client_N lead_b]\<rparr>,
        \<lparr>clients = [(1, client_N\<lparr>remaining_quota := 0\<rparr>)],
         dedup = \<lparr>delivered_leads = [(''a@x.com'', Iso 0), (''b@x.com'', Iso 0)],
                  exclusive_leads = []\<rparr>\<rparr>)"
    by (simp add: process_delivery_def sys_N_def db_up_def pcd_N)
       (simp add: client_N_def)
  show ?thesis
    unfolding run by (simp add: sys_N_def client_N_def)
qed

section \<open>The size of a batch\<close>

text \<open>
  C5 (as amended). The cap of a batch is the minimum of the client's remaining quota and
  the client's own lead count; the table of plans is not consulted. When the cap is not
  negative, the delivered leads are those built from the first cap-many available leads,
  and their number is at most the cap. When the cap is 0 the run raises a
  \<^verbatim>\<open>ValueError\<close>; there is no result with a reason.
\<close>

theorem batch_cap:
  "(0 \<le> min (remaining_quota c) (lead_count c) \<and>
      fst (process_client_delivery cfg ev c s) = Inr result \<longrightarrow>
        csv_rows result =
          personalize (lead_ok ev) c 0
            (take (nat (min (remaining_quota c) (lead_count c))) (get_available_leads cfg ev s c))
        \<and> leads_delivered result \<le> min (remaining_quota c) (lead_count c))
   \<and> (min (remaining_quota c) (lead_count c) = 0 \<longrightarrow>
        fst (process_client_delivery cfg ev c s) =
          Inl (ValueError (if get_available_leads cfg ev s c = []
                           then ''No leads available for delivery''
                           else ''No leads could be processed successfully'')))"
proof -
  have rows: "csv_rows result =
          personalize (lead_ok ev) c 0
            (take (nat (min (remaining_quota c) (lead_count c))) (get_available_leads cfg ev s c))
        \<and> leads_delivered result \<le> min (remaining_quota c) (lead_count c)"
    if cap: "0 \<le> min (remaining_quota c) (lead_count c)"
      and res: "fst (process_client_delivery cfg ev c s) = Inr result"
  proof -
    have "csv_rows result = personalize (lead_ok ev) c 0
            (slice_to (min (remaining_quota c) (lead_count c)) (get_available_leads cfg ev s c))"
      using res by (auto simp: process_client_delivery_def Let_def split: if_splits)
    then show ?thesis
      using cap pcd_size_bound [OF res cap] by (simp add: slice_to_def)
  qed
  have zero: "fst (process_client_delivery cfg ev c s) =
          Inl (ValueError (if get_available_leads cfg ev s c = []
                           then ''No leads available for delivery''
                           else ''No leads could be processed successfully''))"
    if "min (remaining_quota c) (lead_count c) = 0"
    using that by (simp add: process_client_delivery_def Let_def slice_to_def)
  from rows zero show ?thesis by blast
qed

text \<open>The theorem on client G (cap 2, three available leads) and on client Z (cap 0).\<close>

theorem batch_cap_witness:
  "csv_rows \<lparr>leads_delivered = 2,
             csv_rows = [make_Lead client_G lead_a, make_Lead client_G lead_b]\<rparr>
     = personalize (\<lambda>i ld. True) client_G 0 (take 2 [lead_a, lead_b, lead_c])
   \<and> fst (process_client_delivery Config (env_at 7 [lead_a]) client_Z no_deliveries)
       = Inl (ValueError ''No leads could be processed successfully'')"
proof -
  have g1: "0 \<le> min (remaining_quota client_G) (lead_count client_G)
            \<and> fst (process_client_delivery Config (env_at 0 [lead_a, lead_b, lead_c]) client_G
                     no_deliveries)
               = Inr \<lparr>leads_delivered = 2,
                      csv_rows = [make_Lead client_G lead_a, make_Lead client_G lead_b]\<rparr>"
  proof
    show "0 \<le> min (remaining_quota client_G) (lead_count client_G)"
      by (simp add: client_G_def)
    show "fst (process_client_delivery Config (env_at 0 [lead_a, lead_b, lead_c]) client_G
                 no_deliveries)
            = Inr \<lparr>leads_delivered = 2,
                   csv_rows = [make_Lead client_G lead_a, make_Lead client_G lead_b]\<rparr>"
      by (simp add: pcd_G)
  qed
  have g2: "nat (min (remaining_quota client_G) (lead_count client_G)) = 2"
    by (simp add: client_G_def)
  have g3: "lead_ok (env_at 0 [lead_a, lead_b, lead_c]) = (\<lambda>i ld. True)"
    by (simp add: env_at_def)
  have z1: "min (remaining_quota client_Z) (lead_count client_Z) = 0"
    by (simp add: client_Z_def)
  have z2: "get_available_leads Config (env_at 7 [lead_a]) no_deliveries client_Z \<noteq> []"
    by (simp add: available_fresh)
  show ?thesis
    using batch_cap [of client_G Config "env_at 0 [lead_a, lead_b, lead_c]" no_deliveries
            "\<lparr>leads_delivered = 2,
              csv_rows = [make_Lead client_G lead_a, make_Lead client_G lead_b]\<rparr>"]
          batch_cap [of client_Z Config "env_at 7 [lead_a]" no_deliveries
            "\<lparr>leads_delivered = 0, csv_rows = []\<rparr>"]
          g1 g2 g3 z1 z2
    by (simp add: available_fresh)
qed

text \<open>
  C5 as stated fails twice. Client Z has quota 0, and its run raises instead of returning
  an empty result. Client G has quota 5 on the plan basic, whose \<^verbatim>\<open>max_leads\<close> is 100,
  and three leads are available; it is delivered two, its lead count.
\<close>

theorem batch_cap_counterexample:
  "min (remaining_quota client_Z) (lead_count client_Z) = 0
   \<and> fst (process_client_delivery Config (env_at 7 [lead_a]) client_Z no_deliveries)
       = Inl (ValueError ''No leads could be processed successfully'')
   \<and> map_option max_leads (map_of PLAN_CONFIGURATIONS (plan client_G)) = Some 100
   \<and> remaining_quota client_G = 5
   \<and> delivered_emails (fst (process_client_delivery Config (env_at 0 [lead_a, lead_b, lead_c])
                              client_G no_deliveries)) = [''a@x.com'', ''b@x.com'']"
  unfolding pcd_Z pcd_G
  by (simp add: client_Z_def client_G_def PLAN_CONFIGURATIONS_def delivered_emails_def
      make_Lead_def lead_a_def lead_b_def)

section \<open>Nothing to deliver\<close>

text \<open>
  C6 (as amended). A run that finds fewer available leads than the cap, but at least one,
  and builds and stores them all, returns them all: a batch that is not full is an
  ordinary result. A run that finds no available lead raises
  \<^verbatim>\<open>ValueError("No leads available for delivery")\<close> and changes nothing, and the
  route, once it has read the client, answers with that error and changes nothing.
\<close>

theorem nothing_to_deliver:
  "(get_available_leads cfg ev s c = [] \<longrightarrow>
      process_client_delivery cfg ev c s
        = (Inl (ValueError ''No leads available for delivery''), s))
   \<and> (get_available_leads cfg ev s c \<noteq> []
        \<and> int (length (get_available_leads cfg ev s c))
            \<le> min (remaining_quota c) (lead_count c)
        \<and> (\<forall>i ld. lead_ok ev i ld) \<and> storage_ok ev \<longrightarrow>
      fst (process_client_delivery cfg ev c s)
        = Inr \<lparr>leads_delivered = int (length (get_available_leads cfg ev s c)),
               csv_rows = map (make_Lead c) (get_available_leads cfg ev s c)\<rparr>)
   \<and> (get_client_ok dbe \<and> map_of (clients sys) client_id = Some c
        \<and> get_available_leads cfg ev (dedup sys) c = [] \<longrightarrow>
      process_delivery cfg ev dbe client_id sys
        = (Server_error (ValueError ''No leads available for delivery''), sys))"
proof -
  have none: "process_client_delivery cfg ev c s
        = (Inl (ValueError ''No leads available for delivery''), s)"
    if "get_available_leads cfg ev s c = []" for s
    using that by (simp add: process_client_delivery_def)
  have some: "fst (process_client_delivery cfg ev c s)
        = Inr \<lparr>leads_delivered = int (length (get_available_leads cfg ev s c)),
               csv_rows = map (make_Lead c) (get_available_leads cfg ev s c)\<rparr>"
    if ne: "get_available_leads cfg ev s c \<noteq> []"
      and le: "int (length (get_available_leads cfg ev s c))
                 \<le> min (remaining_quota c) (lead_count c)"
      and ok: "\<forall>i ld. lead_ok ev i ld" and st: "storage_ok ev"
  proof -
    have sl: "slice_to (min (remaining_quota c) (lead_count c)) (get_available_leads cfg ev s c)
                = get_available_leads cfg ev s c"
      using le by (auto simp: slice_to_def)
    have pe: "personalize (lead_ok ev) c 0 (get_available_leads cfg ev s c)
                = map (make_Lead c) (get_available_leads cfg ev s c)"
      using ok by (rule personalize_all_ok)
    show ?thesis
      using ne st by (simp add: process_client_delivery_def Let_def sl pe)
  qed
  have route: "process_delivery cfg ev dbe client_id sys
        = (Server_error (ValueError ''No leads available for delivery''), sys)"
    if "get_client_ok dbe" and "map_of (clients sys) client_id = Some c"
      and "get_available_leads cfg ev (dedup sys) c = []"
    using that none [of "dedup sys"] by (simp add: process_delivery_def)
  from none [of s] some route show ?thesis by blast
qed

text \<open>The theorem on client H (cap 10): the only lead of the pool was delivered the
  day before, and the run raises and the route answers with the error; the only lead of
  the pool is fresh, and it is delivered alone.\<close>

theorem nothing_to_deliver_witness:
  "process_client_delivery Config (env_at (timedelta_days 1) [lead_b]) client_H delivered_b_day0
     = (Inl (ValueError ''No leads available for delivery''), delivered_b_day0)
   \<and> fst (process_client_delivery Config (env_at 7 [lead_b]) client_H no_deliveries)
       = Inr \<lparr>leads_delivered = 1, csv_rows = [make_Lead client_H lead_b]\<rparr>
   \<and> process_delivery Config (env_at (timedelta_days 1) [lead_b]) db_up 1 sys_B
       = (Server_error (ValueError ''No leads available for delivery''), sys_B)"
proof -
  have e1: "get_available_leads Config (env_at (timedelta_days 1) [lead_b]) delivered_b_day0
              client_H = []"
    by (rule available_b_day1)
  have f1: "get_available_leads Config (env_at 7 [lead_b]) no_deliveries client_H = [lead_b]"
    by (rule available_fresh)
  have f2: "int (length [lead_b]) \<le> min (remaining_quota client_H) (lead_count client_H)"
    by (simp add: client_H_def)
  have f3: "(\<forall>i ld. lead_ok (env_at 7 [lead_b]) i ld) \<and> storage_ok (env_at 7 [lead_b])"
    by (simp add: env_at_def)
  have r1: "get_client_ok db_up" by (simp add: db_up_def)
  have r2: "map_of (clients sys_B) 1 = Some client_H" by (simp add: sys_B_def)
  have r3: "get_available_leads Config (env_at (timedelta_days 1) [lead_b]) (dedup sys_B)
              client_H = []"
    by (simp add: sys_B_def available_b_day1)
  show ?thesis
    using nothing_to_deliver [of Config "env_at (timedelta_days 1) [lead_b]" delivered_b_day0
            client_H db_up sys_B 1]
          nothing_to_deliver [of Config "env_at 7 [lead_b]" no_deliveries client_H db_up
            sys_B 1]
          e1 f1 f2 f3 r1 r2 r3
    by simp
qed

text \<open>
  C6 as stated fails when no lead is eligible: the only lead of the pool was delivered the
  day before, the run raises, and the route answers with a server error.
\<close>

theorem no_leads_raises_counterexample:
  "get_available_leads Config (env_at (timedelta_days 1) [lead_b]) delivered_b_day0 client_H = []
   \<and> fst (process_client_delivery Config (env_at (timedelta_days 1) [lead_b]) client_H
            delivered_b_day0)
       = Inl (ValueError ''No leads available for delivery'')
   \<and> fst (process_delivery Config (env_at (timedelta_days 1) [lead_b]) db_up 1 sys_B)
       = Server_error (ValueError ''No leads available for delivery'')"
  by (simp add: available_b_day1 pcd_b_day1 process_delivery_def sys_B_def db_up_def)

section \<open>The order of the available leads\<close>

text \<open>
  C9 (as amended). The leads \<^verbatim>\<open>_get_available_leads\<close> returns are leads of the pool
  in the order the pool was read, some left out and none moved; so they are in ascending
  order of ingestion whenever the pool as read is. The client's plan has no effect on
  them.
\<close>

theorem available_leads_order:
  assumes "pool ev = Inr all_leads"
  shows "subseq (get_available_leads cfg ev s c) all_leads
       \<and> (sorted (map processed_at all_leads)
            \<longrightarrow> sorted (map processed_at (get_available_leads cfg ev s c)))
       \<and> get_available_leads cfg ev s (c\<lparr>plan := p\<rparr>) = get_available_leads cfg ev s c"
proof -
  obtain P where P: "get_available_leads cfg ev s c = filter P all_leads
                     \<or> get_available_leads cfg ev s c = []"
    using get_available_leads_pool [OF assms] by blast
  have sub: "subseq (get_available_leads cfg ev s c) all_leads"
    using P by auto
  have srt: "sorted (map processed_at (get_available_leads cfg ev s c))"
    if "sorted (map processed_at all_leads)"
    using P that by (auto simp: sorted_filter)
  from sub srt get_available_leads_plan show ?thesis by blast
qed

text \<open>The theorem on a pool read oldest first.\<close>

theorem available_leads_order_witness:
  "subseq (get_available_leads Config (env_at 7 [lead_a, lead_c]) delivered_b_day0 client_F)
      [lead_a, lead_c]
   \<and> sorted (map processed_at
        (get_available_leads Config (env_at 7 [lead_a, lead_c]) delivered_b_day0 client_F))"
proof -
  have h1: "pool (env_at 7 [lead_a, lead_c]) = Inr [lead_a, lead_c]"
    by (simp add: env_at_def)
  have h2: "sorted (map processed_at [lead_a, lead_c])"
    by (simp add: lead_a_def lead_c_def)
  show ?thesis
    using available_leads_order [OF h1, of Config delivered_b_day0 client_F] h2 by blast
qed

text \<open>
  C9 as stated fails when the pool is not read oldest first, and \<^verbatim>\<open>os.listdir\<close>
  promises no order: the leads come back as read, the newer one first.
\<close>

theorem available_leads_unsorted_counterexample:
  "get_available_leads Config (env_at 7 [lead_c, lead_a]) no_deliveries client_F
     = [lead_c, lead_a]
   \<and> \<not> sorted (map processed_at
          (get_available_leads Config (env_at 7 [lead_c, lead_a]) no_deliveries client_F))"
  unfolding available_fresh by (simp add: lead_a_def lead_c_def)

section \<open>The deduplication window\<close>

text \<open>
  C8. A lead marked as delivered at time \<open>T\<close> by a non-exclusive delivery, with no
  entry in the exclusive index, is reported delivered by \<^verbatim>\<open>is_lead_delivered\<close> exactly
  at the clock readings before \<open>T\<close> plus the window, whatever the window is; and the
  filter of \<^verbatim>\<open>_get_available_leads\<close> drops it for every client before that instant
  and keeps it for every client from that instant on.
\<close>

theorem redelivery_window:
  assumes "e \<in> set es" and "\<not> is_lead_exclusive_delivered s e" and "email ld = e"
  shows "is_lead_delivered cfg t (mark_leads_as_delivered T es False s) e
           = Inr (t < T + timedelta_days (DEDUPLICATION_WINDOW_DAYS cfg))
       \<and> filter_available cfg t (mark_leads_as_delivered T es False s) c [ld]
           = Inr (if t < T + timedelta_days (DEDUPLICATION_WINDOW_DAYS cfg) then [] else [ld])"
proof -
  let ?s = "mark_leads_as_delivered T es False s"
  have stored: "map_of (delivered_leads ?s) e = Some (Iso T)"
    using assms(1) by (simp add: mark_leads_as_delivered_def mark_loop_delivered_map)
  have excl: "\<not> is_lead_exclusive_delivered ?s e"
    using assms(2)
    by (simp add: is_lead_exclusive_delivered_def mark_leads_as_delivered_def
        mark_loop_exclusive_False)
  have check: "is_lead_delivered cfg t ?s e
                 = Inr (t < T + timedelta_days (DEDUPLICATION_WINDOW_DAYS cfg))"
    using stored by (auto simp: is_lead_delivered_def fromisoformat_def Let_def)
  show ?thesis
    using check excl assms(3) by simp
qed

text \<open>The theorem for \<^verbatim>\<open>b@x.com\<close> delivered on day 0 with the window of 30 days:
  not available on day 29, available again on day 31.\<close>

theorem redelivery_window_witness:
  "filter_available Config (timedelta_days 29)
      (mark_leads_as_delivered 0 [''b@x.com''] False no_deliveries) client_H [lead_b] = Inr []
   \<and> filter_available Config (timedelta_days 31)
      (mark_leads_as_delivered 0 [''b@x.com''] False no_deliveries) client_H [lead_b] = Inr [lead_b]"
proof -
  have h1: "''b@x.com'' \<in> set [''b@x.com'']" by simp
  have h2: "\<not> is_lead_exclusive_delivered no_deliveries ''b@x.com''"
    by (simp add: is_lead_exclusive_delivered_def no_deliveries_def)
  have h3: "email lead_b = ''b@x.com''" by (simp add: lead_b_def)
  have early: "timedelta_days 29 < 0 + timedelta_days (DEDUPLICATION_WINDOW_DAYS Config)"
    by (simp add: timedelta_days_def Config_def)
  have late: "\<not> timedelta_days 31 < 0 + timedelta_days (DEDUPLICATION_WINDOW_DAYS Config)"
    by (simp add: timedelta_days_def Config_def)
  show ?thesis
    using redelivery_window [OF h1 h2 h3, of Config "timedelta_days 29" 0 client_H]
          redelivery_window [OF h1 h2 h3, of Config "timedelta_days 31" 0 client_H]
          early late
    by presburger
qed

section \<open>Recording a delivery twice\<close>

text \<open>
  C7. Recording is idempotent. In the table \<^verbatim>\<open>delivered_leads\<close> of the database, an
  insertion whose key (email, fingerprint) is already there returns the table as it is and
  raises nothing, so a second \<^verbatim>\<open>mark_lead_delivered\<close> with the arguments of the first
  changes nothing. In the dictionaries of the deduplication service, a second
  \<^verbatim>\<open>mark_leads_as_delivered\<close> with the same emails, flag and clock reading leaves both
  dictionaries as the first call left them.
\<close>

theorem record_idempotent:
  "((e, f) \<in> set (map (\<lambda>r. (row_email r, row_fingerprint r)) tbl)
      \<longrightarrow> mark_lead_delivered True t e f x tbl = Inr tbl)
   \<and> (mark_lead_delivered True t e f x tbl = Inr tbl'
      \<longrightarrow> mark_lead_delivered True t e f x tbl' = Inr tbl')
   \<and> mark_leads_as_delivered t es x (mark_leads_as_delivered t es x s)
       = mark_leads_as_delivered t es x s"
  by (auto simp: mark_lead_delivered_def mark_leads_as_delivered_def mark_loop_idem
      split: if_splits)

text \<open>The theorem on the empty table and on the table holding the key.\<close>

theorem record_idempotent_witness:
  "mark_lead_delivered True 5 ''a@x.com'' ''f1'' False [] =
     Inr [\<lparr>row_email = ''a@x.com'', row_fingerprint = ''f1'', row_exclusive = False,
           row_delivered_at = 5\<rparr>]
   \<and> mark_lead_delivered True 5 ''a@x.com'' ''f1'' False
       [\<lparr>row_email = ''a@x.com'', row_fingerprint = ''f1'', row_exclusive = False,
         row_delivered_at = 5\<rparr>] =
     Inr [\<lparr>row_email = ''a@x.com'', row_fingerprint = ''f1'', row_exclusive = False,
           row_delivered_at = 5\<rparr>]"
  using record_idempotent [of "''a@x.com''" "''f1''"
          "[\<lparr>row_email = ''a@x.com'', row_fingerprint = ''f1'', row_exclusive = False,
             row_delivered_at = 5\<rparr>]" 5 False "[]" "[]" no_deliveries]
        record_idempotent [of "''a@x.com''" "''f1''" "[]" 5 False
          "[\<lparr>row_email = ''a@x.com'', row_fingerprint = ''f1'', row_exclusive = False,
             row_delivered_at = 5\<rparr>]" "[]" no_deliveries]
  by (simp add: mark_lead_delivered_def)

section \<open>Failure of the upload deduplication\<close>

text \<open>
  C10. \<^verbatim>\<open>remove_duplicates\<close> always returns a DataFrame: when a step of its
  computation raises, the result is the input DataFrame, unchanged. In particular, when the
  DataFrame has no column \<^verbatim>\<open>email\<close> or a stored delivery date does not parse, the
  computation raises and every row of the input passes.
\<close>

theorem remove_duplicates_total:
  "(remove_duplicates_try cfg t s df = Inl err \<longrightarrow> remove_duplicates cfg t s df = df)
   \<and> (''email'' \<notin> set (columns df) \<or> Not_iso \<in> snd ` set (delivered_leads s) \<longrightarrow>
        (\<exists>e. remove_duplicates_try cfg t s df = Inl e) \<and> remove_duplicates cfg t s df = df)"
proof -
  have handler: "remove_duplicates cfg t s df = df"
    if "remove_duplicates_try cfg t s df = Inl e" for e
    using that by (simp add: remove_duplicates_def)
  have raised: "\<exists>e. remove_duplicates_try cfg t s df = Inl e"
    if "''email'' \<notin> set (columns df) \<or> Not_iso \<in> snd ` set (delivered_leads s)"
    using that remove_duplicates_try_raises [of cfg t s df] by blast
  from handler raised show ?thesis by blast
qed

text \<open>The theorem on an upload with a repeated row for \<^verbatim>\<open>a@x.com\<close>, delivered one day
  before, and an index holding a date that does not parse: the repeated and recently
  delivered rows all pass.\<close>

theorem remove_duplicates_total_witness:
  "remove_duplicates_try Config (timedelta_days 1) corrupt_index upload
     = Inl (ValueError ''Invalid isoformat string'')
   \<and> remove_duplicates Config (timedelta_days 1) corrupt_index upload = upload"
proof -
  have fails: "remove_duplicates_try Config (timedelta_days 1) corrupt_index upload
                 = Inl (ValueError ''Invalid isoformat string'')"
    by (simp add: remove_duplicates_try_def drop_duplicates_def upload_def corrupt_index_def
        fromisoformat_def Let_def)
  have bad: "Not_iso \<in> snd ` set (delivered_leads corrupt_index)"
    by (simp add: corrupt_index_def)
  show ?thesis
    using fails bad
      remove_duplicates_total [of Config "timedelta_days 1" corrupt_index upload
        "ValueError ''Invalid isoformat string''"]
    by blast
qed

end
